theory Spec2Isabelle
  imports Complex_Main "HOL-Library.AList"
begin

section \<open>Training progress tracker: the event and session model\<close>

text \<open>
  A shallow embedding of \<^verbatim>\<open>core/training_tracker.py\<close> and of the streaming generator of
  \<^verbatim>\<open>app/routers/training.py\<close>.

  Conventions of the embedding.
  \<^item> A \<^verbatim>\<open>datetime\<close> is the number of microseconds since the epoch (its resolution), a
    \<^verbatim>\<open>timedelta\<close> a number of microseconds; both are unbounded integers here.
  \<^item> A Python \<^verbatim>\<open>float\<close> is a real number: rounding error, infinities and NaN are not
    modelled. Losses and learning rates are only stored and handed back.
  \<^item> Every call of \<^verbatim>\<open>datetime.now\<close> in the source is an explicit argument of the
    operation that makes it, in the order of the calls.
  \<^item> The session dictionary is an association list in insertion order, as a Python
    \<^verbatim>\<open>dict\<close> iterates; assignment to a present key keeps its position.
  \<^item> Each registry operation runs under the session lock, so it is one atomic state
    transformer; the lock itself is not modelled.
\<close>

type_synonym datetime = int
type_synonym timedelta = int

datatype py_error = KeyError | UnboundLocalError

datatype TrainingStatus = PENDING | RUNNING | COMPLETED | FAILED

fun status_value :: "TrainingStatus \<Rightarrow> string" where
  "status_value PENDING = ''pending''"
| "status_value RUNNING = ''running''"
| "status_value COMPLETED = ''completed''"
| "status_value FAILED = ''failed''"

record TrainingEvent =
  step :: int
  loss :: real
  epoch :: int
  learning_rate :: real
  timestamp :: datetime
  grad_norm :: "real option"
  tokens_per_second :: "real option"
  gpu_memory_used :: "real option"

text \<open>The dictionary \<^verbatim>\<open>TrainingEvent.to_dict\<close> builds; the ISO text of the timestamp is
  kept as the instant it denotes.\<close>

record event_dict =
  ed_step :: int
  ed_loss :: real
  ed_epoch :: int
  ed_learning_rate :: real
  ed_timestamp :: datetime
  ed_grad_norm :: "real option"
  ed_tokens_per_second :: "real option"
  ed_gpu_memory_used :: "real option"

definition event_to_dict :: "TrainingEvent \<Rightarrow> event_dict" where
  "event_to_dict e =
     \<lparr> ed_step = step e, ed_loss = loss e, ed_epoch = epoch e,
       ed_learning_rate = learning_rate e, ed_timestamp = timestamp e,
       ed_grad_norm = grad_norm e, ed_tokens_per_second = tokens_per_second e,
       ed_gpu_memory_used = gpu_memory_used e \<rparr>"

record TrainingSession =
  session_id :: string
  job_id :: string
  model_id :: string
  total_steps :: int
  total_epochs :: int
  created_at :: datetime
  started_at :: "datetime option"
  completed_at :: "datetime option"
  status :: TrainingStatus
  events :: "TrainingEvent list"
  error_message :: "string option"
  last_activity :: datetime

subsection \<open>Time arithmetic\<close>

definition hours :: "int \<Rightarrow> timedelta" where
  "hours h = h * 3600 * 1000000"

definition total_seconds :: "timedelta \<Rightarrow> real" where
  "total_seconds d = real_of_int d / 1000000"

text \<open>\<^verbatim>\<open>timedelta(seconds=x)\<close> rounds to the nearest microsecond, ties to even.\<close>

definition round_half_even :: "real \<Rightarrow> int" where
  "round_half_even x =
     (let f = \<lfloor>x\<rfloor>; d = x - real_of_int f
      in if d < 1 / 2 then f
         else if 1 / 2 < d then f + 1
         else if even f then f else f + 1)"

definition timedelta_of_seconds :: "real \<Rightarrow> timedelta" where
  "timedelta_of_seconds x = round_half_even (x * 1000000)"

text \<open>\<^verbatim>\<open>int(x)\<close> on a float truncates towards zero.\<close>

definition py_int :: "real \<Rightarrow> int" where
  "py_int x = (if 0 \<le> x then \<lfloor>x\<rfloor> else \<lceil>x\<rceil>)"

text \<open>\<^verbatim>\<open>round(x, 2)\<close>.\<close>

definition py_round2 :: "real \<Rightarrow> real" where
  "py_round2 x = real_of_int (round_half_even (x * 100)) / 100"

subsection \<open>Methods of \<^verbatim>\<open>TrainingSession\<close>\<close>

text \<open>\<^verbatim>\<open>add_event(self, event)\<close>; \<open>now\<close> is the clock reading stored as last activity.\<close>

definition TrainingSession_add_event ::
  "TrainingSession \<Rightarrow> TrainingEvent \<Rightarrow> datetime \<Rightarrow> TrainingSession" where
  "TrainingSession_add_event s event now =
     (let s1 = s\<lparr>events := events s @ [event], last_activity := now\<rparr>
      in if status s1 = PENDING
         then s1\<lparr>status := RUNNING, started_at := Some (timestamp event)\<rparr>
         else s1)"

definition TrainingSession_complete :: "TrainingSession \<Rightarrow> datetime \<Rightarrow> TrainingSession" where
  "TrainingSession_complete s now =
     s\<lparr>status := COMPLETED, completed_at := Some now, last_activity := now\<rparr>"

definition TrainingSession_fail ::
  "TrainingSession \<Rightarrow> string \<Rightarrow> datetime \<Rightarrow> TrainingSession" where
  "TrainingSession_fail s error now =
     s\<lparr>status := FAILED, error_message := Some error,
       completed_at := Some now, last_activity := now\<rparr>"

definition is_expired :: "TrainingSession \<Rightarrow> datetime \<Rightarrow> int \<Rightarrow> bool" where
  "is_expired s now ttl_hours \<longleftrightarrow> last_activity s + hours ttl_hours < now"

definition current_step :: "TrainingSession \<Rightarrow> int" where
  "current_step s = (if events s = [] then 0 else step (last (events s)))"

definition current_epoch :: "TrainingSession \<Rightarrow> int" where
  "current_epoch s = (if events s = [] then 0 else epoch (last (events s)))"

definition latest_loss :: "TrainingSession \<Rightarrow> real option" where
  "latest_loss s = (if events s = [] then None else Some (loss (last (events s))))"

definition progress_percent :: "TrainingSession \<Rightarrow> real" where
  "progress_percent s =
     (if total_steps s = 0 then 0
      else min 100 (real_of_int (current_step s) / real_of_int (total_steps s) * 100))"

text \<open>\<^verbatim>\<open>xs[-n:]\<close> for \<open>0 < n\<close>: the last \<open>n\<close> elements, the whole list when it is shorter.\<close>

definition py_last_n :: "nat \<Rightarrow> 'a list \<Rightarrow> 'a list" where
  "py_last_n n xs = drop (length xs - n) xs"

definition estimate_eta :: "TrainingSession \<Rightarrow> timedelta option" where
  "estimate_eta s =
     (if length (events s) < 2 then None
      else
        let recent_events = py_last_n (min 20 (length (events s))) (events s)
        in if length recent_events < 2 then None
           else
             let time_diff = total_seconds
                   (timestamp (last recent_events) - timestamp (hd recent_events));
                 steps_diff = step (last recent_events) - step (hd recent_events)
             in if steps_diff \<le> 0 then None
                else
                  let seconds_per_step = time_diff / real_of_int steps_diff;
                      remaining_steps = total_steps s - current_step s
                  in Some (timedelta_of_seconds
                             (real_of_int remaining_steps * seconds_per_step)))"

definition get_loss_history :: "TrainingSession \<Rightarrow> (int \<times> real) list" where
  "get_loss_history s = map (\<lambda>e. (step e, loss e)) (events s)"

subsection \<open>Formatting\<close>

definition digit_char :: "nat \<Rightarrow> char" where
  "digit_char d = ''0123456789'' ! d"

fun str_nat :: "nat \<Rightarrow> string" where
  "str_nat n = (if n < 10 then [digit_char n] else str_nat (n div 10) @ [digit_char (n mod 10)])"

declare str_nat.simps [simp del]

definition str_int :: "int \<Rightarrow> string" where
  "str_int i = (if i < 0 then CHR ''-'' # str_nat (nat (- i)) else str_nat (nat i))"

definition format_eta :: "timedelta \<Rightarrow> string" where
  "format_eta eta =
     (let total = py_int (total_seconds eta)
      in if total < 60 then str_int total @ ''s''
         else if total < 3600
         then str_int (total div 60) @ ''m '' @ str_int (total mod 60) @ ''s''
         else str_int (total div 3600) @ ''h '' @ str_int ((total mod 3600) div 60) @ ''m'')"

text \<open>The dictionary \<^verbatim>\<open>TrainingSession.to_dict\<close> builds. A \<^verbatim>\<open>timedelta\<close> of zero is
  false in a Python condition, so \<^verbatim>\<open>eta_seconds\<close> and \<^verbatim>\<open>eta_formatted\<close> are \<^verbatim>\<open>None\<close>
  for it.\<close>

record status_dict =
  sd_session_id :: string
  sd_job_id :: string
  sd_model_id :: string
  sd_status :: string
  sd_total_steps :: int
  sd_total_epochs :: int
  sd_current_step :: int
  sd_current_epoch :: int
  sd_progress_percent :: real
  sd_latest_loss :: "real option"
  sd_eta_seconds :: "real option"
  sd_eta_formatted :: "string option"
  sd_created_at :: datetime
  sd_started_at :: "datetime option"
  sd_completed_at :: "datetime option"
  sd_error_message :: "string option"
  sd_event_count :: nat

definition truthy_eta :: "timedelta option \<Rightarrow> timedelta option" where
  "truthy_eta eta = (case eta of None \<Rightarrow> None | Some d \<Rightarrow> if d = 0 then None else Some d)"

definition session_to_dict :: "TrainingSession \<Rightarrow> status_dict" where
  "session_to_dict s =
     (let eta = estimate_eta s
      in \<lparr> sd_session_id = session_id s, sd_job_id = job_id s, sd_model_id = model_id s,
           sd_status = status_value (status s),
           sd_total_steps = total_steps s, sd_total_epochs = total_epochs s,
           sd_current_step = current_step s, sd_current_epoch = current_epoch s,
           sd_progress_percent = py_round2 (progress_percent s),
           sd_latest_loss = latest_loss s,
           sd_eta_seconds = map_option total_seconds (truthy_eta eta),
           sd_eta_formatted = map_option format_eta (truthy_eta eta),
           sd_created_at = created_at s, sd_started_at = started_at s,
           sd_completed_at = completed_at s, sd_error_message = error_message s,
           sd_event_count = length (events s) \<rparr>)"

section \<open>The session registry\<close>

text \<open>\<^verbatim>\<open>TrainingTracker._sessions\<close>: a dictionary from session id to session. The
  sessions are mutable objects held by reference; a method call on the session found under
  a key is a store of the updated session under that key.\<close>

type_synonym session_map = "(string \<times> TrainingSession) list"

record TrainingTracker =
  sessions :: session_map

definition new_tracker :: TrainingTracker where
  "new_tracker = \<lparr> sessions = [] \<rparr>"

text \<open>Keys of a dictionary are unique.\<close>

definition wf_tracker :: "TrainingTracker \<Rightarrow> bool" where
  "wf_tracker tr \<longleftrightarrow> distinct (map fst (sessions tr))"

definition dict_get :: "session_map \<Rightarrow> string \<Rightarrow> TrainingSession option" where
  "dict_get d k = map_of d k"

definition dict_set :: "session_map \<Rightarrow> string \<Rightarrow> TrainingSession \<Rightarrow> session_map" where
  "dict_set d k v = AList.update k v d"

text \<open>\<^verbatim>\<open>del d[k]\<close> raises \<^verbatim>\<open>KeyError\<close> when the key is absent.\<close>

definition dict_del :: "session_map \<Rightarrow> string \<Rightarrow> py_error + session_map" where
  "dict_del d k = (if k \<in> set (map fst d) then Inr (AList.delete k d) else Inl KeyError)"

fun del_all :: "string list \<Rightarrow> session_map \<Rightarrow> py_error + session_map" where
  "del_all [] d = Inr d"
| "del_all (sid # sids) d =
     (case dict_del d sid of Inl e \<Rightarrow> Inl e | Inr d' \<Rightarrow> del_all sids d')"

text \<open>\<^verbatim>\<open>_cleanup_expired\<close>. Each \<^verbatim>\<open>is_expired()\<close> reads the clock once; \<open>clock sid\<close> is
  the reading made for the session stored under \<open>sid\<close>. The result is the count removed.\<close>

definition expired_ids :: "(string \<Rightarrow> datetime) \<Rightarrow> session_map \<Rightarrow> string list" where
  "expired_ids clock d = map fst (filter (\<lambda>(sid, session). is_expired session (clock sid) 2) d)"

definition cleanup_expired ::
  "(string \<Rightarrow> datetime) \<Rightarrow> TrainingTracker \<Rightarrow> py_error + (nat \<times> TrainingTracker)" where
  "cleanup_expired clock tr =
     (let ids = expired_ids clock (sessions tr)
      in case del_all ids (sessions tr) of
           Inl e \<Rightarrow> Inl e
         | Inr d \<Rightarrow> Inr (length ids, tr\<lparr>sessions := d\<rparr>))"

text \<open>The constructor call of \<^verbatim>\<open>start_session\<close>, with the defaults of the other fields;
  \<open>t_created\<close> and \<open>t_activity\<close> are the clock readings of the two default factories.\<close>

definition new_session ::
  "string \<Rightarrow> string \<Rightarrow> string \<Rightarrow> int \<Rightarrow> int \<Rightarrow> datetime \<Rightarrow> datetime \<Rightarrow> TrainingSession" where
  "new_session sid job model n_steps n_epochs t_created t_activity =
     \<lparr> session_id = sid, job_id = job, model_id = model,
       total_steps = n_steps, total_epochs = n_epochs,
       created_at = t_created, started_at = None, completed_at = None,
       status = PENDING, events = [], error_message = None,
       last_activity = t_activity \<rparr>"

definition start_session ::
  "(string \<Rightarrow> datetime) \<Rightarrow> TrainingTracker \<Rightarrow> string \<Rightarrow> string \<Rightarrow> string \<Rightarrow> int \<Rightarrow> int
     \<Rightarrow> datetime \<Rightarrow> datetime \<Rightarrow> py_error + (TrainingSession \<times> TrainingTracker)" where
  "start_session clock tr sid job model n_steps n_epochs t_created t_activity =
     (case cleanup_expired clock tr of
        Inl e \<Rightarrow> Inl e
      | Inr (_, tr1) \<Rightarrow>
          let session = new_session sid job model n_steps n_epochs t_created t_activity
          in Inr (session, tr1\<lparr>sessions := dict_set (sessions tr1) sid session\<rparr>))"

definition get_session :: "TrainingTracker \<Rightarrow> string \<Rightarrow> TrainingSession option" where
  "get_session tr sid = dict_get (sessions tr) sid"

text \<open>The fields of one reported event, as the webhook passes them.\<close>

record event_fields =
  ef_step :: int
  ef_loss :: real
  ef_epoch :: int
  ef_learning_rate :: real
  ef_grad_norm :: "real option"
  ef_tokens_per_second :: "real option"
  ef_gpu_memory_used :: "real option"

definition make_event :: "event_fields \<Rightarrow> datetime \<Rightarrow> TrainingEvent" where
  "make_event f t =
     \<lparr> step = ef_step f, loss = ef_loss f, epoch = ef_epoch f,
       learning_rate = ef_learning_rate f, timestamp = t,
       grad_norm = ef_grad_norm f, tokens_per_second = ef_tokens_per_second f,
       gpu_memory_used = ef_gpu_memory_used f \<rparr>"

text \<open>\<^verbatim>\<open>TrainingTracker.add_event\<close>: \<open>t_event\<close> is the clock reading that stamps the new
  event, \<open>t_activity\<close> the later one stored as last activity.\<close>

definition add_event ::
  "TrainingTracker \<Rightarrow> string \<Rightarrow> event_fields \<Rightarrow> datetime \<Rightarrow> datetime
     \<Rightarrow> bool \<times> TrainingTracker" where
  "add_event tr sid f t_event t_activity =
     (case dict_get (sessions tr) sid of
        None \<Rightarrow> (False, tr)
      | Some session \<Rightarrow>
          let event = make_event f t_event
          in (True, tr\<lparr>sessions := dict_set (sessions tr) sid
                         (TrainingSession_add_event session event t_activity)\<rparr>))"

definition complete_session :: "TrainingTracker \<Rightarrow> string \<Rightarrow> datetime \<Rightarrow> bool \<times> TrainingTracker" where
  "complete_session tr sid now =
     (case dict_get (sessions tr) sid of
        None \<Rightarrow> (False, tr)
      | Some session \<Rightarrow>
          (True, tr\<lparr>sessions := dict_set (sessions tr) sid (TrainingSession_complete session now)\<rparr>))"

definition fail_session ::
  "TrainingTracker \<Rightarrow> string \<Rightarrow> string \<Rightarrow> datetime \<Rightarrow> bool \<times> TrainingTracker" where
  "fail_session tr sid error now =
     (case dict_get (sessions tr) sid of
        None \<Rightarrow> (False, tr)
      | Some session \<Rightarrow>
          (True, tr\<lparr>sessions := dict_set (sessions tr) sid (TrainingSession_fail session error now)\<rparr>))"

text \<open>The queries return their answer together with the registry they leave behind.\<close>

definition get_events ::
  "TrainingTracker \<Rightarrow> string \<Rightarrow> int option \<Rightarrow> event_dict list \<times> TrainingTracker" where
  "get_events tr sid since_step =
     (case dict_get (sessions tr) sid of
        None \<Rightarrow> ([], tr)
      | Some session \<Rightarrow>
          let evs = (case since_step of
                       None \<Rightarrow> events session
                     | Some k \<Rightarrow> filter (\<lambda>e. k < step e) (events session))
          in (map event_to_dict evs, tr))"


definition get_status :: "TrainingTracker \<Rightarrow> string \<Rightarrow> status_dict option \<times> TrainingTracker" where
  "get_status tr sid =
     (case dict_get (sessions tr) sid of
        None \<Rightarrow> (None, tr)
      | Some session \<Rightarrow> (Some (session_to_dict session), tr))"


definition active_count ::
  "(string \<Rightarrow> datetime) \<Rightarrow> TrainingTracker \<Rightarrow> py_error + (nat \<times> TrainingTracker)" where
  "active_count clock tr =
     (case cleanup_expired clock tr of
        Inl e \<Rightarrow> Inl e
      | Inr (_, tr1) \<Rightarrow> Inr (length (sessions tr1), tr1))"

section \<open>The progress feed\<close>

text \<open>\<^verbatim>\<open>event_generator\<close> of \<^verbatim>\<open>stream_training_events\<close>. What it yields: a data message
  or a complete message carrying the JSON of a status dictionary, or the error message.\<close>

datatype notification =
  Data status_dict
| Complete status_dict
| ErrorEvent string

text \<open>The generator's local variables: the cursor \<^verbatim>\<open>last_step\<close>, and whether the local name
  \<^verbatim>\<open>json\<close> is bound. The statement \<^verbatim>\<open>import json\<close> stands inside the branch for new
  events, which makes \<^verbatim>\<open>json\<close> a local variable of the generator, unbound until that
  branch has run.\<close>

record feed_state =
  last_step :: int
  json_bound :: bool

definition feed_init :: feed_state where
  "feed_init = \<lparr> last_step = 0, json_bound = False \<rparr>"

text \<open>How one pass through the loop body ends: at the sleep, by leaving the loop, or by an
  exception.\<close>

datatype iteration_end = Sleep feed_state | Break | Raise py_error

text \<open>One pass through the loop body. The two registry reads take the lock separately:
  \<open>tr_status\<close> is the registry at \<^verbatim>\<open>get_status\<close>, \<open>tr_events\<close> the registry at
  \<^verbatim>\<open>get_events\<close>.\<close>

definition poll_iteration ::
  "string \<Rightarrow> feed_state \<Rightarrow> TrainingTracker \<Rightarrow> TrainingTracker
     \<Rightarrow> notification list \<times> iteration_end" where
  "poll_iteration sid fs tr_status tr_events =
     (case fst (get_status tr_status sid) of
        None \<Rightarrow> ([ErrorEvent ''Session expired''], Break)
      | Some st \<Rightarrow>
          let new_events = fst (get_events tr_events sid (Some (last_step fs)));
              fs1 = (if new_events \<noteq> []
                     then fs\<lparr>last_step := ed_step (last new_events), json_bound := True\<rparr>
                     else fs);
              out = (if new_events \<noteq> [] then [Data st] else [])
          in if sd_status st = ''completed'' \<or> sd_status st = ''failed''
             then (if json_bound fs1 then (out @ [Complete st], Break)
                   else (out, Raise UnboundLocalError))
             else (out, Sleep fs1))"

text \<open>The loop, driven by the registry states it observes, one pair for each pass. It
  ends when the body breaks or raises; when the observations run out it is suspended at
  the sleep.\<close>

datatype feed_end = Ended | Raised py_error | Suspended feed_state

fun event_generator ::
  "string \<Rightarrow> feed_state \<Rightarrow> (TrainingTracker \<times> TrainingTracker) list
     \<Rightarrow> notification list \<times> feed_end" where
  "event_generator sid fs [] = ([], Suspended fs)"
| "event_generator sid fs ((tr_status, tr_events) # rest) =
     (case poll_iteration sid fs tr_status tr_events of
        (out, Break) \<Rightarrow> (out, Ended)
      | (out, Raise e) \<Rightarrow> (out, Raised e)
      | (out, Sleep fs1) \<Rightarrow>
          (let (out', fin) = event_generator sid fs1 rest in (out @ out', fin)))"

text \<open>A sequence of webhook calls on the registry.\<close>

datatype registry_call =
  AddEvent string event_fields datetime datetime
| CompleteSession string datetime
| FailSession string string datetime

fun apply_call :: "TrainingTracker \<Rightarrow> registry_call \<Rightarrow> TrainingTracker" where
  "apply_call tr (AddEvent sid f t_event t_activity) = snd (add_event tr sid f t_event t_activity)"
| "apply_call tr (CompleteSession sid now) = snd (complete_session tr sid now)"
| "apply_call tr (FailSession sid error now) = snd (fail_session tr sid error now)"

definition apply_calls :: "TrainingTracker \<Rightarrow> registry_call list \<Rightarrow> TrainingTracker" where
  "apply_calls tr cs = foldl apply_call tr cs"

section \<open>Notions used to state the properties\<close>

text \<open>Completed and Failed are the terminal statuses.\<close>

definition terminal :: "TrainingStatus \<Rightarrow> bool" where
  "terminal st \<longleftrightarrow> st = COMPLETED \<or> st = FAILED"

text \<open>What a webhook call does to the session stored under \<open>sid\<close>, and the events a
  sequence of calls appends to it, in call order.\<close>

fun session_call :: "string \<Rightarrow> TrainingSession \<Rightarrow> registry_call \<Rightarrow> TrainingSession" where
  "session_call sid s (AddEvent sid' f t_event t_activity) =
     (if sid' = sid then TrainingSession_add_event s (make_event f t_event) t_activity else s)"
| "session_call sid s (CompleteSession sid' now) =
     (if sid' = sid then TrainingSession_complete s now else s)"
| "session_call sid s (FailSession sid' error now) =
     (if sid' = sid then TrainingSession_fail s error now else s)"

fun added_events :: "string \<Rightarrow> registry_call list \<Rightarrow> TrainingEvent list" where
  "added_events sid [] = []"
| "added_events sid (AddEvent sid' f t_event t_activity # cs) =
     (if sid' = sid then make_event f t_event # added_events sid cs else added_events sid cs)"
| "added_events sid (_ # cs) = added_events sid cs"

text \<open>The sessions a sweep keeps: those not expired at the clock reading made for them.\<close>

definition unexpired_sessions :: "(string \<Rightarrow> datetime) \<Rightarrow> session_map \<Rightarrow> session_map" where
  "unexpired_sessions clock d = filter (\<lambda>(sid, session). \<not> is_expired session (clock sid) 2) d"

text \<open>The successive states of a session while events are added to it.\<close>

fun add_events_trace ::
  "TrainingSession \<Rightarrow> (TrainingEvent \<times> datetime) list \<Rightarrow> TrainingSession list" where
  "add_events_trace s [] = [s]"
| "add_events_trace s ((e, now) # rest) =
     s # add_events_trace (TrainingSession_add_event s e now) rest"

subsection \<open>Sample data\<close>

definition ex_fields :: "int \<Rightarrow> event_fields" where
  "ex_fields n =
     \<lparr> ef_step = n, ef_loss = 1 / 2, ef_epoch = 0, ef_learning_rate = 1 / 5000,
       ef_grad_norm = None, ef_tokens_per_second = None, ef_gpu_memory_used = None \<rparr>"

definition ex_session :: "int \<Rightarrow> TrainingSession" where
  "ex_session n =
     \<lparr> session_id = ''s1'', job_id = ''j1'', model_id = ''m1'',
       total_steps = n, total_epochs = 1,
       created_at = 0, started_at = None, completed_at = None,
       status = PENDING, events = [], error_message = None, last_activity = 0 \<rparr>"

definition ex_tracker :: "int \<Rightarrow> TrainingTracker" where
  "ex_tracker n = \<lparr> sessions = [(''s1'', ex_session n)] \<rparr>"

text \<open>Two sessions, the first idle since time 0, the second active one hour later.\<close>

definition ex_two_sessions :: TrainingTracker where
  "ex_two_sessions =
     \<lparr> sessions = [(''s1'', ex_session 100),
                    (''s2'', (ex_session 100)\<lparr>session_id := ''s2'', last_activity := hours 1\<rparr>)] \<rparr>"

section \<open>Properties of the dictionary and of the sweep\<close>

lemma dict_get_set: "dict_get (dict_set d k v) k' = (if k' = k then Some v else dict_get d k')"
  by (simp add: dict_get_def dict_set_def update_conv')

lemma distinct_dict_set: "distinct (map fst d) \<Longrightarrow> distinct (map fst (dict_set d k v))"
  by (simp add: dict_set_def distinct_update)

lemma del_all_filter:
  "distinct ids \<Longrightarrow> set ids \<subseteq> set (map fst d)
     \<Longrightarrow> del_all ids d = Inr (filter (\<lambda>p. fst p \<notin> set ids) d)"
proof (induction ids arbitrary: d)
  case Nil
  then show ?case by simp
next
  case (Cons k ks)
  have del: "dict_del d k = Inr (AList.delete k d)"
    using Cons.prems(2) by (simp add: dict_del_def)
  have sub: "set ks \<subseteq> set (map fst (AList.delete k d))"
    using Cons.prems by (auto simp: delete_keys)
  have "del_all ks (AList.delete k d) = Inr (filter (\<lambda>p. fst p \<notin> set ks) (AList.delete k d))"
    using Cons.IH [OF _ sub] Cons.prems(1) by simp
  moreover have "filter (\<lambda>p. fst p \<notin> set ks) (AList.delete k d) = filter (\<lambda>p. fst p \<notin> set (k # ks)) d"
    by (induction d) auto
  ultimately show ?case using del by simp
qed

lemma distinct_expired_ids: "distinct (map fst d) \<Longrightarrow> distinct (expired_ids clock d)"
  by (simp add: expired_ids_def distinct_map_filter)

lemma expired_ids_subset: "set (expired_ids clock d) \<subseteq> set (map fst d)"
  by (auto simp: expired_ids_def)

lemma filter_not_expired:
  "distinct (map fst d) \<Longrightarrow>
     filter (\<lambda>p. fst p \<notin> set (expired_ids clock d)) d
       = filter (\<lambda>(sid, session). \<not> is_expired session (clock sid) 2) d"
proof (rule filter_cong [OF refl])
  fix p assume d: "distinct (map fst d)" and p: "p \<in> set d"
  obtain sid s where ps: "p = (sid, s)" by (cases p)
  have "sid \<in> set (expired_ids clock d) \<longleftrightarrow> is_expired s (clock sid) 2"
  proof
    assume "sid \<in> set (expired_ids clock d)"
    then obtain s' where s': "(sid, s') \<in> set d" "is_expired s' (clock sid) 2"
      by (auto simp: expired_ids_def)
    with d p ps have "s' = s" by (meson eq_key_imp_eq_value)
    with s' show "is_expired s (clock sid) 2" by simp
  next
    assume "is_expired s (clock sid) 2"
    with p ps show "sid \<in> set (expired_ids clock d)"
      by (force simp: expired_ids_def)
  qed
  then show "(fst p \<notin> set (expired_ids clock d)) = (case p of (sid, session) \<Rightarrow> \<not> is_expired session (clock sid) 2)"
    using ps by simp
qed

lemma cleanup_expired_wf:
  assumes "wf_tracker tr"
  shows "cleanup_expired clock tr =
           Inr (length (expired_ids clock (sessions tr)),
                tr\<lparr>sessions := unexpired_sessions clock (sessions tr)\<rparr>)"
proof -
  have d: "distinct (map fst (sessions tr))" using assms by (simp add: wf_tracker_def)
  show ?thesis
    unfolding cleanup_expired_def Let_def unexpired_sessions_def
    by (simp add: del_all_filter [OF distinct_expired_ids [OF d] expired_ids_subset]
                  filter_not_expired [OF d])
qed

lemma wf_unexpired: "wf_tracker tr \<Longrightarrow> wf_tracker (tr\<lparr>sessions := unexpired_sessions clock (sessions tr)\<rparr>)"
  by (simp add: wf_tracker_def unexpired_sessions_def distinct_map_filter)


section \<open>Sequences of webhook calls\<close>

lemma get_session_apply_call:
  "get_session (apply_call tr c) sid = map_option (\<lambda>s. session_call sid s c) (get_session tr sid)"
  by (cases c; cases "dict_get (sessions tr) sid")
     (auto simp: get_session_def add_event_def complete_session_def fail_session_def
                 dict_get_set Let_def split: option.splits)

lemma get_session_apply_calls:
  "get_session (apply_calls tr cs) sid
     = map_option (\<lambda>s. foldl (session_call sid) s cs) (get_session tr sid)"
  unfolding apply_calls_def
proof (induction cs arbitrary: tr)
  case Nil
  then show ?case by (simp add: option.map_ident)
next
  case (Cons c cs)
  show ?case
    by (simp add: Cons.IH get_session_apply_call option.map_comp comp_def)
qed

lemma events_session_call:
  "events (session_call sid s c) = events s @ added_events sid [c]"
  by (cases c) (auto simp: TrainingSession_add_event_def TrainingSession_complete_def
                      TrainingSession_fail_def Let_def)

lemma added_events_Cons: "added_events sid (c # cs) = added_events sid [c] @ added_events sid cs"
  by (cases c) auto

lemma events_foldl_session_call:
  "events (foldl (session_call sid) s cs) = events s @ added_events sid cs"
proof (induction cs arbitrary: s)
  case Nil
  then show ?case by simp
next
  case (Cons c cs)
  show ?case
    using added_events_Cons [of sid c cs] by (simp add: Cons.IH events_session_call)
qed

lemma added_events_append: "added_events sid (cs @ ds) = added_events sid cs @ added_events sid ds"
proof (induction cs)
  case Nil
  then show ?case by simp
next
  case (Cons c cs)
  then show ?case
    using added_events_Cons [of sid c "cs @ ds"] added_events_Cons [of sid c cs] by simp
qed

lemma status_session_call:
  "status (session_call sid s c) =
     (case c of
        AddEvent sid' f t_event t_activity \<Rightarrow>
          if sid' = sid \<and> status s = PENDING then RUNNING else status s
      | CompleteSession sid' now \<Rightarrow> if sid' = sid then COMPLETED else status s
      | FailSession sid' error now \<Rightarrow> if sid' = sid then FAILED else status s)"
  by (cases c) (auto simp: TrainingSession_add_event_def TrainingSession_complete_def
                      TrainingSession_fail_def Let_def)

lemma terminal_session_call: "terminal (status s) \<Longrightarrow> terminal (status (session_call sid s c))"
  unfolding status_session_call by (cases c) (auto simp: terminal_def)

lemma terminal_foldl: "terminal (status s) \<Longrightarrow> terminal (status (foldl (session_call sid) s cs))"
  by (induction cs arbitrary: s) (simp_all add: terminal_session_call)

lemma not_pending_session_call:
  "status s \<noteq> PENDING \<Longrightarrow> status (session_call sid s c) \<noteq> PENDING"
  unfolding status_session_call by (cases c) auto

lemma started_at_session_call:
  "status s \<noteq> PENDING \<Longrightarrow> started_at (session_call sid s c) = started_at s"
  by (cases c) (auto simp: TrainingSession_add_event_def TrainingSession_complete_def
                      TrainingSession_fail_def Let_def)

lemma started_at_foldl:
  "status s \<noteq> PENDING \<Longrightarrow>
     status (foldl (session_call sid) s cs) \<noteq> PENDING \<and>
     started_at (foldl (session_call sid) s cs) = started_at s"
proof (induction cs arbitrary: s)
  case Nil
  then show ?case by simp
next
  case (Cons c cs)
  from Cons.prems have np: "status (session_call sid s c) \<noteq> PENDING"
    by (rule not_pending_session_call)
  show ?case
    using Cons.IH [OF np] started_at_session_call [OF Cons.prems] by simp
qed

lemma keys_apply_call: "map fst (sessions (apply_call tr c)) = map fst (sessions tr)"
  by (cases c)
     (auto simp: add_event_def complete_session_def fail_session_def dict_get_def dict_set_def
                 update_keys Let_def map_of_eq_None_iff split: option.splits
           dest!: map_of_SomeD intro: rev_image_eqI)

lemmas ex_defs = ex_fields_def ex_session_def ex_tracker_def ex_two_sessions_def
lemmas call_defs = apply_calls_def add_event_def complete_session_def fail_session_def
  get_session_def dict_get_def dict_set_def make_event_def
  TrainingSession_add_event_def TrainingSession_complete_def TrainingSession_fail_def

section \<open>Writes to an unknown session\<close>

text \<open>C5: for a session id that is not in the registry, \<^verbatim>\<open>add_event\<close>,
  \<^verbatim>\<open>complete_session\<close> and \<^verbatim>\<open>fail_session\<close> each return false, raise nothing (the model
  has no error result for them) and leave the registry as it was.\<close>

theorem unknown_session_returns_false:
  assumes "get_session tr sid = None"
  shows "add_event tr sid f t_event t_activity = (False, tr) \<and>
         complete_session tr sid now = (False, tr) \<and>
         fail_session tr sid error now = (False, tr)"
  using assms by (simp add: get_session_def add_event_def complete_session_def fail_session_def)

theorem unknown_session_returns_false_witness:
  "get_session (ex_tracker 100) ''nonexistent-session'' = None \<and>
   add_event (ex_tracker 100) ''nonexistent-session'' (ex_fields 10) 1 2 = (False, ex_tracker 100) \<and>
   complete_session (ex_tracker 100) ''nonexistent-session'' 3 = (False, ex_tracker 100) \<and>
   fail_session (ex_tracker 100) ''nonexistent-session'' ''OOM error'' 3 = (False, ex_tracker 100)"
proof -
  have h: "get_session (ex_tracker 100) ''nonexistent-session'' = None"
    by (simp add: get_session_def dict_get_def ex_tracker_def)
  show ?thesis
    using h unknown_session_returns_false [OF h, of "ex_fields 10" 1 2 3 "''OOM error''"] by simp
qed

section \<open>Events are kept in arrival order\<close>

text \<open>C3: after any sequence of webhook calls, \<^verbatim>\<open>get_events\<close> without \<^verbatim>\<open>since_step\<close>
  returns the session's events in the order of the \<^verbatim>\<open>add_event\<close> calls, whatever their
  steps, and with \<^verbatim>\<open>since_step = k\<close> exactly those of them whose step is greater than
  \<open>k\<close>, in the same order, duplicates kept.\<close>

theorem get_events_arrival_order:
  assumes "get_session tr sid = Some s"
  shows "fst (get_events (apply_calls tr cs) sid None)
           = map event_to_dict (events s @ added_events sid cs) \<and>
         fst (get_events (apply_calls tr cs) sid (Some k))
           = map event_to_dict (filter (\<lambda>e. k < step e) (events s @ added_events sid cs))"
proof -
  have "get_session (apply_calls tr cs) sid = Some (foldl (session_call sid) s cs)"
    using assms by (simp add: get_session_apply_calls)
  then have g: "dict_get (sessions (apply_calls tr cs)) sid = Some (foldl (session_call sid) s cs)"
    by (simp add: get_session_def)
  show ?thesis
    by (simp add: get_events_def g events_foldl_session_call)
qed

theorem get_events_arrival_order_witness:
  "get_session (ex_tracker 100) ''s1'' = Some (ex_session 100) \<and>
   map ed_step (fst (get_events
      (apply_calls (ex_tracker 100)
         [AddEvent ''s1'' (ex_fields 30) 1 2, AddEvent ''s1'' (ex_fields 10) 3 4,
          AddEvent ''s2'' (ex_fields 50) 5 6, AddEvent ''s1'' (ex_fields 30) 7 8]) ''s1'' None))
     = [30, 10, 30] \<and>
   map ed_step (fst (get_events
      (apply_calls (ex_tracker 100)
         [AddEvent ''s1'' (ex_fields 30) 1 2, AddEvent ''s1'' (ex_fields 10) 3 4,
          AddEvent ''s2'' (ex_fields 50) 5 6, AddEvent ''s1'' (ex_fields 30) 7 8]) ''s1'' (Some 10)))
     = [30, 30]"
proof -
  have h: "get_session (ex_tracker 100) ''s1'' = Some (ex_session 100)"
    by (simp add: get_session_def dict_get_def ex_tracker_def)
  show ?thesis
    using h get_events_arrival_order [OF h,
        of "[AddEvent ''s1'' (ex_fields 30) 1 2, AddEvent ''s1'' (ex_fields 10) 3 4,
             AddEvent ''s2'' (ex_fields 50) 5 6, AddEvent ''s1'' (ex_fields 30) 7 8]" 10]
    by (simp add: ex_defs make_event_def event_to_dict_def)
qed

section \<open>The first event starts the session\<close>

text \<open>C4: on a session in status Pending, \<^verbatim>\<open>add_event\<close> succeeds, makes the status
  Running and sets \<^verbatim>\<open>started_at\<close> to the timestamp of the event it stores. Every later
  \<^verbatim>\<open>add_event\<close> on the session, after any webhook calls in between, appends its event
  and stores its clock reading as last activity, while \<^verbatim>\<open>started_at\<close> and the events
  stored before stay as they were.\<close>

theorem first_event_starts_session:
  assumes "get_session tr sid = Some s" and "status s = PENDING"
  shows "fst (add_event tr sid f t_event t_activity) \<and>
         (\<exists>s1. get_session (snd (add_event tr sid f t_event t_activity)) sid = Some s1 \<and>
               status s1 = RUNNING \<and> started_at s1 = Some t_event \<and>
               events s1 = events s @ [make_event f t_event] \<and>
               timestamp (make_event f t_event) = t_event \<and>
               last_activity s1 = t_activity) \<and>
         (\<forall>cs f' t' t''. \<exists>s2.
               get_session (apply_calls (snd (add_event tr sid f t_event t_activity))
                              (cs @ [AddEvent sid f' t' t''])) sid = Some s2 \<and>
               started_at s2 = Some t_event \<and>
               events s2 = events s @ [make_event f t_event] @ added_events sid cs
                             @ [make_event f' t'] \<and>
               last_activity s2 = t'')"
proof -
  let ?tr1 = "snd (add_event tr sid f t_event t_activity)"
  let ?s1 = "TrainingSession_add_event s (make_event f t_event) t_activity"
  have g: "dict_get (sessions tr) sid = Some s"
    using assms(1) by (simp add: get_session_def)
  have ret: "fst (add_event tr sid f t_event t_activity)"
    by (simp add: add_event_def g Let_def)
  have g1: "get_session ?tr1 sid = Some ?s1"
    by (simp add: add_event_def g Let_def get_session_def dict_get_set)
  have s1: "status ?s1 = RUNNING" "started_at ?s1 = Some t_event"
    "events ?s1 = events s @ [make_event f t_event]" "last_activity ?s1 = t_activity"
    using assms(2) by (simp_all add: TrainingSession_add_event_def Let_def make_event_def)
  have later: "\<exists>s2. get_session (apply_calls ?tr1 (cs @ [AddEvent sid f' t' t''])) sid = Some s2 \<and>
               started_at s2 = Some t_event \<and>
               events s2 = events s @ [make_event f t_event] @ added_events sid cs
                             @ [make_event f' t'] \<and>
               last_activity s2 = t''" for cs f' t' t''
  proof -
    let ?s2 = "foldl (session_call sid) ?s1 (cs @ [AddEvent sid f' t' t''])"
    have np: "status ?s1 \<noteq> PENDING" using s1(1) by simp
    have a: "get_session (apply_calls ?tr1 (cs @ [AddEvent sid f' t' t''])) sid = Some ?s2"
      by (simp only: get_session_apply_calls g1 option.map)
    have b: "started_at ?s2 = Some t_event"
      using started_at_foldl [OF np, of sid "cs @ [AddEvent sid f' t' t'']"] s1(2) by simp
    have c: "events ?s2 = events s @ [make_event f t_event] @ added_events sid cs @ [make_event f' t']"
      by (simp only: events_foldl_session_call added_events_append s1(3))
         simp
    have d: "last_activity ?s2 = t''"
      by (simp add: TrainingSession_add_event_def Let_def)
    from a b c d show ?thesis by blast
  qed
  have ts: "timestamp (make_event f t_event) = t_event" by (simp add: make_event_def)
  from ret g1 s1 ts later show ?thesis by blast
qed

theorem first_event_starts_session_witness:
  "get_session (ex_tracker 100) ''s1'' = Some (ex_session 100) \<and>
   status (ex_session 100) = PENDING \<and>
   fst (add_event (ex_tracker 100) ''s1'' (ex_fields 25) 7 8) \<and>
   map_option status (get_session (snd (add_event (ex_tracker 100) ''s1'' (ex_fields 25) 7 8)) ''s1'')
     = Some RUNNING \<and>
   map_option started_at
     (get_session (apply_calls (snd (add_event (ex_tracker 100) ''s1'' (ex_fields 25) 7 8))
        ([CompleteSession ''s1'' 20] @ [AddEvent ''s1'' (ex_fields 30) 40 41])) ''s1'')
     = Some (Some 7) \<and>
   map_option last_activity
     (get_session (apply_calls (snd (add_event (ex_tracker 100) ''s1'' (ex_fields 25) 7 8))
        ([CompleteSession ''s1'' 20] @ [AddEvent ''s1'' (ex_fields 30) 40 41])) ''s1'')
     = Some 41"
proof -
  have h1: "get_session (ex_tracker 100) ''s1'' = Some (ex_session 100)"
    by (simp add: get_session_def dict_get_def ex_tracker_def)
  have h2: "status (ex_session 100) = PENDING"
    by (simp add: ex_session_def)
  note t = first_event_starts_session [OF h1 h2, of "ex_fields 25" 7 8]
  from t have a: "fst (add_event (ex_tracker 100) ''s1'' (ex_fields 25) 7 8)" by blast
  from t obtain s1 where
    b: "get_session (snd (add_event (ex_tracker 100) ''s1'' (ex_fields 25) 7 8)) ''s1'' = Some s1"
       "status s1 = RUNNING" by blast
  from t obtain s2 where
    c: "get_session (apply_calls (snd (add_event (ex_tracker 100) ''s1'' (ex_fields 25) 7 8))
        ([CompleteSession ''s1'' 20] @ [AddEvent ''s1'' (ex_fields 30) 40 41])) ''s1'' = Some s2"
       "started_at s2 = Some 7" "last_activity s2 = 41" by blast
  show ?thesis using h1 h2 a b c by simp
qed

section \<open>Status transitions\<close>

text \<open>C1, as stated, fails: \<^verbatim>\<open>complete\<close> and \<^verbatim>\<open>fail\<close> assign the status without
  looking at the old one. A Pending session that is completed becomes Completed without
  having been Running, and a later \<^verbatim>\<open>fail_session\<close> turns Completed into Failed.\<close>

theorem terminal_status_overwritten_counterexample:
  "map_option status
     (get_session (apply_calls (ex_tracker 100) [CompleteSession ''s1'' 5]) ''s1'')
     = Some COMPLETED \<and>
   map_option status
     (get_session (apply_calls (ex_tracker 100)
        [CompleteSession ''s1'' 5, FailSession ''s1'' ''CUDA out of memory'' 6]) ''s1'')
     = Some FAILED"
  by (simp add: call_defs ex_defs)

text \<open>C1, amended: \<^verbatim>\<open>add_event\<close> changes the status only from Pending to Running and
  leaves Running, Completed and Failed as they are; \<^verbatim>\<open>complete_session\<close> sets Completed and
  \<^verbatim>\<open>fail_session\<close> sets Failed from any status. So once the status of a session is
  terminal it is terminal after every further sequence of webhook calls: it never goes
  back to Pending or Running, though one terminal status may replace the other.\<close>

theorem status_transitions:
  assumes "get_session tr sid = Some s"
  shows "(\<exists>s'. get_session (apply_call tr c) sid = Some s' \<and>
            status s' =
              (case c of
                 AddEvent sid' f t_event t_activity \<Rightarrow>
                   if sid' = sid \<and> status s = PENDING then RUNNING else status s
               | CompleteSession sid' now \<Rightarrow> if sid' = sid then COMPLETED else status s
               | FailSession sid' error now \<Rightarrow> if sid' = sid then FAILED else status s)) \<and>
         (terminal (status s) \<longrightarrow>
            (\<exists>s'. get_session (apply_calls tr cs) sid = Some s' \<and> terminal (status s')))"
proof -
  have "get_session (apply_call tr c) sid = Some (session_call sid s c)"
    using assms by (simp add: get_session_apply_call)
  moreover have "get_session (apply_calls tr cs) sid = Some (foldl (session_call sid) s cs)"
    using assms by (simp add: get_session_apply_calls)
  ultimately show ?thesis
    by (simp add: status_session_call terminal_foldl)
qed

theorem status_transitions_witness:
  "get_session (snd (fail_session (ex_tracker 100) ''s1'' ''OOM error'' 5)) ''s1''
     = Some (TrainingSession_fail (ex_session 100) ''OOM error'' 5) \<and>
   terminal (status (TrainingSession_fail (ex_session 100) ''OOM error'' 5)) \<and>
   map_option status
     (get_session (apply_call (snd (fail_session (ex_tracker 100) ''s1'' ''OOM error'' 5))
        (AddEvent ''s1'' (ex_fields 10) 6 7)) ''s1'') = Some FAILED \<and>
   map_option (terminal \<circ> status)
     (get_session (apply_calls (snd (fail_session (ex_tracker 100) ''s1'' ''OOM error'' 5))
        [AddEvent ''s1'' (ex_fields 10) 6 7, CompleteSession ''s1'' 8]) ''s1'') = Some True"
proof -
  let ?tr = "snd (fail_session (ex_tracker 100) ''s1'' ''OOM error'' 5)"
  let ?s = "TrainingSession_fail (ex_session 100) ''OOM error'' 5"
  have h: "get_session ?tr ''s1'' = Some ?s"
    by (simp add: call_defs ex_defs)
  have st: "status ?s = FAILED" by (simp add: TrainingSession_fail_def)
  then have tm: "terminal (status ?s)" by (simp add: terminal_def)
  note t = status_transitions [OF h, of "AddEvent ''s1'' (ex_fields 10) 6 7"
      "[AddEvent ''s1'' (ex_fields 10) 6 7, CompleteSession ''s1'' 8]"]
  from t st obtain s' where
    a: "get_session (apply_call ?tr (AddEvent ''s1'' (ex_fields 10) 6 7)) ''s1'' = Some s'"
       "status s' = FAILED" by auto
  from t tm obtain s'' where
    b: "get_session (apply_calls ?tr [AddEvent ''s1'' (ex_fields 10) 6 7, CompleteSession ''s1'' 8]) ''s1'' = Some s''"
       "terminal (status s'')" by blast
  show ?thesis using h tm a b by simp
qed

section \<open>Queries\<close>



section \<open>Expiry and the start of a session\<close>

lemma wf_dict_set: "wf_tracker tr \<Longrightarrow> wf_tracker (tr\<lparr>sessions := dict_set (sessions tr) k v\<rparr>)"
  by (simp add: wf_tracker_def distinct_dict_set)

lemma wf_new_tracker: "wf_tracker new_tracker"
  by (simp add: wf_tracker_def new_tracker_def)

lemma wf_apply_call: "wf_tracker tr \<Longrightarrow> wf_tracker (apply_call tr c)"
  by (simp add: wf_tracker_def keys_apply_call)

lemma wf_apply_calls: "wf_tracker tr \<Longrightarrow> wf_tracker (apply_calls tr cs)"
  unfolding apply_calls_def by (induction cs arbitrary: tr) (simp_all add: wf_apply_call)



text \<open>C7: \<^verbatim>\<open>start_session\<close> sweeps first and then stores a new session under the given
  id, with status Pending and no events; a session already stored under that id is
  replaced, and no error is returned. The other sessions are those the sweep left.\<close>

theorem start_session_overwrites:
  assumes "wf_tracker tr"
  shows "start_session clock tr sid job model n_steps n_epochs t_created t_activity =
           Inr (new_session sid job model n_steps n_epochs t_created t_activity,
                tr\<lparr>sessions := dict_set (unexpired_sessions clock (sessions tr)) sid
                    (new_session sid job model n_steps n_epochs t_created t_activity)\<rparr>) \<and>
         status (new_session sid job model n_steps n_epochs t_created t_activity) = PENDING \<and>
         events (new_session sid job model n_steps n_epochs t_created t_activity) = [] \<and>
         (\<forall>sid'. get_session
                   (tr\<lparr>sessions := dict_set (unexpired_sessions clock (sessions tr)) sid
                       (new_session sid job model n_steps n_epochs t_created t_activity)\<rparr>) sid'
                 = (if sid' = sid
                    then Some (new_session sid job model n_steps n_epochs t_created t_activity)
                    else get_session (tr\<lparr>sessions := unexpired_sessions clock (sessions tr)\<rparr>) sid')) \<and>
         wf_tracker (tr\<lparr>sessions := dict_set (unexpired_sessions clock (sessions tr)) sid
                       (new_session sid job model n_steps n_epochs t_created t_activity)\<rparr>)"
proof -
  have a: "start_session clock tr sid job model n_steps n_epochs t_created t_activity =
           Inr (new_session sid job model n_steps n_epochs t_created t_activity,
                tr\<lparr>sessions := dict_set (unexpired_sessions clock (sessions tr)) sid
                    (new_session sid job model n_steps n_epochs t_created t_activity)\<rparr>)"
    by (simp add: start_session_def cleanup_expired_wf [OF assms] Let_def)
  have b: "status (new_session sid job model n_steps n_epochs t_created t_activity) = PENDING"
          "events (new_session sid job model n_steps n_epochs t_created t_activity) = []"
    by (simp_all add: new_session_def)
  have c: "get_session
                   (tr\<lparr>sessions := dict_set (unexpired_sessions clock (sessions tr)) sid
                       (new_session sid job model n_steps n_epochs t_created t_activity)\<rparr>) sid'
                 = (if sid' = sid
                    then Some (new_session sid job model n_steps n_epochs t_created t_activity)
                    else get_session (tr\<lparr>sessions := unexpired_sessions clock (sessions tr)\<rparr>) sid')"
    for sid'
    by (simp add: get_session_def dict_get_set)
  have d: "wf_tracker (tr\<lparr>sessions := dict_set (unexpired_sessions clock (sessions tr)) sid
                       (new_session sid job model n_steps n_epochs t_created t_activity)\<rparr>)"
    using wf_dict_set [OF wf_unexpired [OF assms, of clock], of sid] by simp
  from a b c d show ?thesis by blast
qed

theorem start_session_overwrites_witness:
  "wf_tracker (apply_calls (ex_tracker 100) [AddEvent ''s1'' (ex_fields 25) 1 2]) \<and>
   map_option status
     (get_session (apply_calls (ex_tracker 100) [AddEvent ''s1'' (ex_fields 25) 1 2]) ''s1'')
     = Some RUNNING \<and>
   start_session (\<lambda>_. 3) (apply_calls (ex_tracker 100) [AddEvent ''s1'' (ex_fields 25) 1 2])
       ''s1'' ''j2'' ''m2'' 50 2 4 5
     = Inr (new_session ''s1'' ''j2'' ''m2'' 50 2 4 5,
            \<lparr> sessions = [(''s1'', new_session ''s1'' ''j2'' ''m2'' 50 2 4 5)] \<rparr>) \<and>
   status (new_session ''s1'' ''j2'' ''m2'' 50 2 4 5) = PENDING \<and>
   events (new_session ''s1'' ''j2'' ''m2'' 50 2 4 5) = []"
proof -
  let ?tr = "apply_calls (ex_tracker 100) [AddEvent ''s1'' (ex_fields 25) 1 2]"
  have h: "wf_tracker ?tr"
    by (simp add: wf_tracker_def call_defs ex_defs)
  have r: "map_option status (get_session ?tr ''s1'') = Some RUNNING"
    by (simp add: call_defs ex_defs)
  have u: "unexpired_sessions (\<lambda>_. 3) (sessions ?tr) = sessions ?tr"
    by (simp add: unexpired_sessions_def call_defs ex_defs is_expired_def hours_def)
  have k: "dict_set (sessions ?tr) ''s1'' v = [(''s1'', v)]" for v
    by (simp add: call_defs ex_defs)
  show ?thesis
    using h r start_session_overwrites [OF h, of "\<lambda>_. 3" "''s1''" "''j2''" "''m2''" 50 2 4 5]
    by (simp add: u k)
qed

section \<open>Progress\<close>

lemma current_step_add_event [simp]:
  "current_step (TrainingSession_add_event s e now) = step e"
  by (simp add: current_step_def TrainingSession_add_event_def Let_def)

lemma total_steps_add_event [simp]:
  "total_steps (TrainingSession_add_event s e now) = total_steps s"
  by (simp add: TrainingSession_add_event_def Let_def)

lemma progress_percent_le_100: "progress_percent s \<le> 100"
  by (simp add: progress_percent_def)

lemma progress_percent_mono_step:
  assumes "0 \<le> total_steps s" and "current_step s \<le> step e"
  shows "progress_percent s \<le> progress_percent (TrainingSession_add_event s e now)"
proof (cases "total_steps s = 0")
  case True
  then show ?thesis by (simp add: progress_percent_def)
next
  case False
  with assms(1) have pos: "0 < real_of_int (total_steps s)" by simp
  have "real_of_int (current_step s) / real_of_int (total_steps s)
          \<le> real_of_int (step e) / real_of_int (total_steps s)"
    using assms(2) pos by (simp add: divide_right_mono)
  from mult_right_mono [OF this, of 100]
  have "real_of_int (current_step s) / real_of_int (total_steps s) * 100
          \<le> real_of_int (step e) / real_of_int (total_steps s) * 100"
    by simp
  then show ?thesis
    using False by (simp add: progress_percent_def min_le_iff_disj)
qed

lemma add_events_trace_hd: "\<exists>ts. add_events_trace s es = s # ts"
  by (cases es) auto

lemma progress_percent_trace_sorted:
  "0 \<le> total_steps s \<Longrightarrow> sorted (current_step s # map (step \<circ> fst) es)
     \<Longrightarrow> sorted (map progress_percent (add_events_trace s es))"
proof (induction es arbitrary: s)
  case Nil
  then show ?case by simp
next
  case (Cons p es)
  obtain e now where p: "p = (e, now)" by (cases p)
  let ?s' = "TrainingSession_add_event s e now"
  have le: "current_step s \<le> step e" using Cons.prems(2) p by simp
  have st: "sorted (current_step ?s' # map (step \<circ> fst) es)"
    using Cons.prems(2) p by (simp add: comp_def)
  have ts0: "0 \<le> total_steps ?s'"
    using Cons.prems(1) by simp
  have srt: "sorted (map progress_percent (add_events_trace ?s' es))"
    by (rule Cons.IH [OF ts0 st])
  obtain ts where ts: "add_events_trace ?s' es = ?s' # ts"
    using add_events_trace_hd by blast
  have "progress_percent s \<le> progress_percent ?s'"
    using progress_percent_mono_step [OF Cons.prems(1) le] .
  then show ?case
    using srt ts p by (auto simp: order_trans)
qed

text \<open>C8, as stated, fails in its last part: nothing in the code keeps \<^verbatim>\<open>total_steps\<close>
  or a step from being negative. With \<^verbatim>\<open>total_steps = -100\<close> and events at steps 10 and
  20 the progress goes 0, -10, -20; with \<^verbatim>\<open>total_steps = 100\<close> and events at steps -5 and
  3 it goes 0, -5, 3. In both the steps are non-decreasing and the progress decreases.\<close>

theorem progress_percent_decreases_counterexample:
  "sorted (map (step \<circ> fst)
      [(make_event (ex_fields 10) 1, 2), (make_event (ex_fields 20) 3, 4)]) \<and>
   map progress_percent
     (add_events_trace (ex_session (- 100))
        [(make_event (ex_fields 10) 1, 2), (make_event (ex_fields 20) 3, 4)])
     = [0, - 10, - 20] \<and>
   \<not> sorted (map progress_percent
     (add_events_trace (ex_session (- 100))
        [(make_event (ex_fields 10) 1, 2), (make_event (ex_fields 20) 3, 4)])) \<and>
   sorted (map (step \<circ> fst)
      [(make_event (ex_fields (- 5)) 1, 2), (make_event (ex_fields 3) 3, 4)]) \<and>
   map progress_percent
     (add_events_trace (ex_session 100)
        [(make_event (ex_fields (- 5)) 1, 2), (make_event (ex_fields 3) 3, 4)])
     = [0, - 5, 3] \<and>
   \<not> sorted (map progress_percent
     (add_events_trace (ex_session 100)
        [(make_event (ex_fields (- 5)) 1, 2), (make_event (ex_fields 3) 3, 4)]))"
proof -
  have a: "map progress_percent
     (add_events_trace (ex_session (- 100))
        [(make_event (ex_fields 10) 1, 2), (make_event (ex_fields 20) 3, 4)])
     = [0, - 10, - 20]"
    by (simp add: progress_percent_def ex_defs make_event_def current_step_def
          TrainingSession_add_event_def Let_def)
  have b: "map progress_percent
     (add_events_trace (ex_session 100)
        [(make_event (ex_fields (- 5)) 1, 2), (make_event (ex_fields 3) 3, 4)])
     = [0, - 5, 3]"
    by (simp add: progress_percent_def ex_defs make_event_def current_step_def
          TrainingSession_add_event_def Let_def)
  have c: "sorted (map (step \<circ> fst)
      [(make_event (ex_fields 10) 1, 2), (make_event (ex_fields 20) 3, 4)])"
    "sorted (map (step \<circ> fst)
      [(make_event (ex_fields (- 5)) 1, 2), (make_event (ex_fields 3) 3, 4)])"
    by (simp_all add: make_event_def ex_fields_def)
  show ?thesis
    unfolding a b using c by simp
qed

text \<open>C8, amended: \<^verbatim>\<open>progress_percent\<close> is \<open>min 100 (current_step / total_steps * 100)\<close>,
  and 0 when \<^verbatim>\<open>total_steps\<close> is 0, without a division; it never exceeds 100 and is 100
  when the current step has passed a positive \<^verbatim>\<open>total_steps\<close>. When \<^verbatim>\<open>total_steps\<close> is
  not negative, it does not decrease when an event with a step at least the current step
  (0 before the first event) is added, so along a sequence of added events with
  non-decreasing steps that start at or above the current step the successive progress
  values are sorted.\<close>

theorem progress_percent_clamped_monotone:
  "progress_percent s =
     (if total_steps s = 0 then 0
      else min 100 (real_of_int (current_step s) / real_of_int (total_steps s) * 100)) \<and>
   progress_percent s \<le> 100 \<and>
   (0 < total_steps s \<and> total_steps s < current_step s \<longrightarrow> progress_percent s = 100) \<and>
   (0 \<le> total_steps s \<and> current_step s \<le> step e \<longrightarrow>
      progress_percent s \<le> progress_percent (TrainingSession_add_event s e now)) \<and>
   (0 \<le> total_steps s \<and> sorted (current_step s # map (step \<circ> fst) es) \<longrightarrow>
      sorted (map progress_percent (add_events_trace s es)))"
proof -
  have a: "0 < total_steps s \<and> total_steps s < current_step s \<longrightarrow> progress_percent s = 100"
  proof
    assume h: "0 < total_steps s \<and> total_steps s < current_step s"
    then have "1 \<le> real_of_int (current_step s) / real_of_int (total_steps s)"
      by simp
    from mult_right_mono [OF this, of 100]
    have "100 \<le> real_of_int (current_step s) / real_of_int (total_steps s) * 100"
      by simp
    then show "progress_percent s = 100"
      using h by (simp add: progress_percent_def)
  qed
  show ?thesis
    using a progress_percent_le_100 progress_percent_mono_step progress_percent_trace_sorted
    by (simp add: progress_percent_def)
qed

theorem progress_percent_clamped_monotone_witness:
  "(0::int) < total_steps (TrainingSession_add_event (ex_session 100) (make_event (ex_fields 150) 1) 2) \<and>
   total_steps (TrainingSession_add_event (ex_session 100) (make_event (ex_fields 150) 1) 2)
     < current_step (TrainingSession_add_event (ex_session 100) (make_event (ex_fields 150) 1) 2) \<and>
   progress_percent (TrainingSession_add_event (ex_session 100) (make_event (ex_fields 150) 1) 2) = 100 \<and>
   current_step (ex_session 100) \<le> step (make_event (ex_fields 25) 1) \<and>
   progress_percent (ex_session 100)
     \<le> progress_percent (TrainingSession_add_event (ex_session 100) (make_event (ex_fields 25) 1) 2) \<and>
   sorted (current_step (ex_session 100)
             # map (step \<circ> fst) [(make_event (ex_fields 25) 1, 2), (make_event (ex_fields 25) 3, 4),
                                  (make_event (ex_fields 150) 5, 6)]) \<and>
   map progress_percent
       (add_events_trace (ex_session 100)
          [(make_event (ex_fields 25) 1, 2), (make_event (ex_fields 25) 3, 4),
           (make_event (ex_fields 150) 5, 6)]) = [0, 25, 25, 100] \<and>
   sorted (map progress_percent
       (add_events_trace (ex_session 100)
          [(make_event (ex_fields 25) 1, 2), (make_event (ex_fields 25) 3, 4),
           (make_event (ex_fields 150) 5, 6)]))"
proof -
  let ?s = "TrainingSession_add_event (ex_session 100) (make_event (ex_fields 150) 1) 2"
  let ?es = "[(make_event (ex_fields 25) 1, 2), (make_event (ex_fields 25) 3, 4),
           (make_event (ex_fields 150) 5, 6)]"
  have h1: "0 < total_steps ?s \<and> total_steps ?s < current_step ?s"
    by (simp add: ex_defs make_event_def)
  have h2: "0 \<le> total_steps (ex_session 100) \<and>
            current_step (ex_session 100) \<le> step (make_event (ex_fields 25) 1)"
    by (simp add: ex_defs make_event_def current_step_def)
  have h3: "0 \<le> total_steps (ex_session 100) \<and>
            sorted (current_step (ex_session 100) # map (step \<circ> fst) ?es)"
    by (simp add: ex_defs make_event_def current_step_def)
  have v: "map progress_percent (add_events_trace (ex_session 100) ?es) = [0, 25, 25, 100]"
    by (simp add: progress_percent_def ex_defs make_event_def current_step_def
          TrainingSession_add_event_def Let_def)
  from h1 progress_percent_clamped_monotone [of ?s] have c1: "progress_percent ?s = 100"
    by blast
  from h2 progress_percent_clamped_monotone [of "ex_session 100" "make_event (ex_fields 25) 1" 2]
  have c2: "progress_percent (ex_session 100)
     \<le> progress_percent (TrainingSession_add_event (ex_session 100) (make_event (ex_fields 25) 1) 2)"
    by blast
  from h3 progress_percent_clamped_monotone [of "ex_session 100" _ _ ?es]
  have c3: "sorted (map progress_percent (add_events_trace (ex_session 100) ?es))"
    by blast
  show ?thesis using h1 h2 h3 v c1 c2 c3 by blast
qed

section \<open>The estimate of the remaining time\<close>

lemma estimate_eta_absent:
  "length (events s) < 2 \<Longrightarrow> estimate_eta s = None"
  "step (last (py_last_n (min 20 (length (events s))) (events s)))
     - step (hd (py_last_n (min 20 (length (events s))) (events s))) \<le> 0
   \<Longrightarrow> estimate_eta s = None"
  by (simp_all add: estimate_eta_def Let_def)

text \<open>With two or more events and a step advance in the window, the estimate is the
  remaining steps times the seconds per step of the window, rounded to the microsecond.
  It is not negative when the current step has not passed \<^verbatim>\<open>total_steps\<close> and the
  timestamps of the window do not run backwards.\<close>

lemma round_half_even_nonneg: "0 \<le> x \<Longrightarrow> 0 \<le> round_half_even x"
  by (simp add: round_half_even_def Let_def)

lemma estimate_eta_value:
  assumes "2 \<le> length (events s)"
      and "0 < step (last (py_last_n (min 20 (length (events s))) (events s)))
                 - step (hd (py_last_n (min 20 (length (events s))) (events s)))"
  shows "estimate_eta s =
           Some (timedelta_of_seconds
                  (real_of_int (total_steps s - current_step s)
                   * (total_seconds
                        (timestamp (last (py_last_n (min 20 (length (events s))) (events s)))
                         - timestamp (hd (py_last_n (min 20 (length (events s))) (events s))))
                      / real_of_int
                          (step (last (py_last_n (min 20 (length (events s))) (events s)))
                           - step (hd (py_last_n (min 20 (length (events s))) (events s)))))))"
proof -
  have "length (py_last_n (min 20 (length (events s))) (events s)) = min 20 (length (events s))"
    by (simp add: py_last_n_def)
  then have "\<not> length (py_last_n (min 20 (length (events s))) (events s)) < 2"
    using assms(1) by simp
  then show ?thesis
    using assms by (simp add: estimate_eta_def Let_def)
qed

lemma estimate_eta_nonneg:
  assumes "estimate_eta s = Some d"
      and "current_step s \<le> total_steps s"
      and "timestamp (hd (py_last_n (min 20 (length (events s))) (events s)))
             \<le> timestamp (last (py_last_n (min 20 (length (events s))) (events s)))"
  shows "0 \<le> d"
proof -
  let ?w = "py_last_n (min 20 (length (events s))) (events s)"
  from assms(1) have sd: "0 < step (last ?w) - step (hd ?w)"
    and d: "d = timedelta_of_seconds
                  (real_of_int (total_steps s - current_step s)
                   * (total_seconds (timestamp (last ?w) - timestamp (hd ?w))
                      / real_of_int (step (last ?w) - step (hd ?w))))"
    by (auto simp: estimate_eta_def Let_def split: if_splits)
  have "0 \<le> total_seconds (timestamp (last ?w) - timestamp (hd ?w))"
    using assms(3) by (simp add: total_seconds_def)
  then have "0 \<le> total_seconds (timestamp (last ?w) - timestamp (hd ?w))
                  / real_of_int (step (last ?w) - step (hd ?w))"
    using sd by simp
  moreover have "0 \<le> real_of_int (total_steps s - current_step s)"
    using assms(2) by simp
  ultimately have "0 \<le> real_of_int (total_steps s - current_step s)
                   * (total_seconds (timestamp (last ?w) - timestamp (hd ?w))
                      / real_of_int (step (last ?w) - step (hd ?w)))"
    by (rule mult_nonneg_nonneg [rotated])
  then have "0 \<le> real_of_int (total_steps s - current_step s)
                   * (total_seconds (timestamp (last ?w) - timestamp (hd ?w))
                      / real_of_int (step (last ?w) - step (hd ?w))) * 1000000"
    by (rule mult_nonneg_nonneg) simp
  then show ?thesis
    unfolding d timedelta_of_seconds_def by (rule round_half_even_nonneg)
qed

text \<open>C2 at a session whose current step has passed \<^verbatim>\<open>total_steps\<close>: ten steps are
  planned, events arrive at steps 10 and 20, ten seconds apart. The remaining steps are
  taken as \<open>10 - 20\<close> without a lower bound of 0, so \<^verbatim>\<open>estimate_eta\<close> is minus ten
  seconds, and the status dictionary carries \<^verbatim>\<open>eta_seconds = -10.0\<close> and
  \<^verbatim>\<open>eta_formatted = "-10s"\<close>.\<close>

theorem eta_negative_past_total_steps:
  "map_option estimate_eta
     (get_session (apply_calls (ex_tracker 10)
        [AddEvent ''s1'' (ex_fields 10) 0 0, AddEvent ''s1'' (ex_fields 20) 10000000 10000000])
        ''s1'') = Some (Some (- 10000000)) \<and>
   map_option sd_eta_seconds
     (fst (get_status (apply_calls (ex_tracker 10)
        [AddEvent ''s1'' (ex_fields 10) 0 0, AddEvent ''s1'' (ex_fields 20) 10000000 10000000])
        ''s1'')) = Some (Some (- 10)) \<and>
   map_option sd_eta_formatted
     (fst (get_status (apply_calls (ex_tracker 10)
        [AddEvent ''s1'' (ex_fields 10) 0 0, AddEvent ''s1'' (ex_fields 20) 10000000 10000000])
        ''s1'')) = Some (Some ''-10s'')"
proof -
  let ?s = "(ex_session 10)\<lparr>events := [make_event (ex_fields 10) 0, make_event (ex_fields 20) 10000000],
              last_activity := 10000000, status := RUNNING, started_at := Some 0\<rparr>"
  have g: "dict_get (sessions (apply_calls (ex_tracker 10)
        [AddEvent ''s1'' (ex_fields 10) 0 0, AddEvent ''s1'' (ex_fields 20) 10000000 10000000]))
        ''s1'' = Some ?s"
    by (simp add: call_defs ex_defs Let_def)
  have e: "estimate_eta ?s = Some (- 10000000)"
    by (simp add: estimate_eta_def py_last_n_def ex_defs make_event_def current_step_def
          total_seconds_def timedelta_of_seconds_def round_half_even_def Let_def)
  have n10: "str_nat 10 = ''10''"
    by (simp add: str_nat.simps [of 10] str_nat.simps [of "Suc 0"] digit_char_def)
  have f: "format_eta (- 10000000) = ''-10s''"
    by (simp add: format_eta_def total_seconds_def py_int_def str_int_def n10)
  show ?thesis
    by (simp add: get_session_def get_status_def g e f session_to_dict_def truthy_eta_def
          total_seconds_def Let_def)
qed

section \<open>The feed at a terminal status\<close>

text \<open>When the name \<^verbatim>\<open>json\<close> is bound, or new events arrive in the same pass, a pass
  that reads a terminal status yields one complete message with the status read, after
  the data message for the new events if there are any, and leaves the loop.\<close>

lemma poll_iteration_terminal:
  assumes "fst (get_status tr_status sid) = Some st"
      and "sd_status st = ''completed'' \<or> sd_status st = ''failed''"
      and "json_bound fs \<or> fst (get_events tr_events sid (Some (last_step fs))) \<noteq> []"
  shows "poll_iteration sid fs tr_status tr_events =
           ((if fst (get_events tr_events sid (Some (last_step fs))) \<noteq> [] then [Data st] else [])
              @ [Complete st], Break)"
  using assms by (auto simp: poll_iteration_def Let_def)

text \<open>The scenario with an event: one event at step 25, then the failure. The first pass
  yields the data message, the second the complete message with status Failed, and the
  stream ends.\<close>

lemma feed_scenario_with_event:
  "event_generator ''s1'' feed_init
     [(apply_calls (ex_tracker 100) [AddEvent ''s1'' (ex_fields 25) 1 2],
       apply_calls (ex_tracker 100) [AddEvent ''s1'' (ex_fields 25) 1 2]),
      (apply_calls (ex_tracker 100)
         [AddEvent ''s1'' (ex_fields 25) 1 2, FailSession ''s1'' ''CUDA out of memory'' 5],
       apply_calls (ex_tracker 100)
         [AddEvent ''s1'' (ex_fields 25) 1 2, FailSession ''s1'' ''CUDA out of memory'' 5])]
   = ([Data (session_to_dict
              (TrainingSession_add_event (ex_session 100) (make_event (ex_fields 25) 1) 2)),
       Complete (session_to_dict
              (TrainingSession_fail
                (TrainingSession_add_event (ex_session 100) (make_event (ex_fields 25) 1) 2)
                ''CUDA out of memory'' 5))],
      Ended)"
proof -
  let ?s1 = "TrainingSession_add_event (ex_session 100) (make_event (ex_fields 25) 1) 2"
  let ?s2 = "TrainingSession_fail ?s1 ''CUDA out of memory'' 5"
  let ?tr1 = "apply_calls (ex_tracker 100) [AddEvent ''s1'' (ex_fields 25) 1 2]"
  let ?tr2 = "apply_calls (ex_tracker 100)
         [AddEvent ''s1'' (ex_fields 25) 1 2, FailSession ''s1'' ''CUDA out of memory'' 5]"
  have g1: "dict_get (sessions ?tr1) ''s1'' = Some ?s1"
    by (simp add: apply_calls_def add_event_def dict_get_def dict_set_def ex_tracker_def Let_def)
  have g2: "dict_get (sessions ?tr2) ''s1'' = Some ?s2"
    by (simp add: apply_calls_def add_event_def fail_session_def dict_get_def dict_set_def
          ex_tracker_def Let_def)
  have e1: "events ?s1 = [make_event (ex_fields 25) 1]" "status ?s1 = RUNNING"
    by (simp_all add: TrainingSession_add_event_def ex_session_def Let_def)
  have e2: "events ?s2 = [make_event (ex_fields 25) 1]" "status ?s2 = FAILED"
    by (simp_all add: TrainingSession_fail_def e1)
  have st1: "sd_status (session_to_dict ?s1) = ''running''"
    by (simp add: session_to_dict_def Let_def e1)
  have st2: "sd_status (session_to_dict ?s2) = ''failed''"
    by (simp add: session_to_dict_def Let_def e2)
  have stp: "step (make_event (ex_fields 25) 1) = 25"
    by (simp add: make_event_def ex_fields_def)
  have p1: "poll_iteration ''s1'' feed_init ?tr1 ?tr1 =
              ([Data (session_to_dict ?s1)], Sleep \<lparr>last_step = 25, json_bound = True\<rparr>)"
    by (simp add: poll_iteration_def get_status_def get_events_def g1 st1 e1 stp
          feed_init_def event_to_dict_def Let_def)
  have p2: "poll_iteration ''s1'' \<lparr>last_step = 25, json_bound = True\<rparr> ?tr2 ?tr2 =
              ([Complete (session_to_dict ?s2)], Break)"
    by (simp add: poll_iteration_def get_status_def get_events_def g2 st2 e2 stp Let_def)
  show ?thesis
    by (simp add: p1 p2)
qed

text \<open>C9 at a session that fails before any event with a positive step has arrived: the
  first pass of the generator reads the status Failed and no new events, the branch that
  imports \<^verbatim>\<open>json\<close> does not run, and building the complete message raises
  \<^verbatim>\<open>UnboundLocalError\<close>. Nothing is yielded.\<close>

theorem feed_raises_at_terminal_status_without_events:
  "map_option sd_status
     (fst (get_status (snd (fail_session (ex_tracker 100) ''s1'' ''CUDA out of memory'' 5)) ''s1''))
     = Some ''failed'' \<and>
   event_generator ''s1'' feed_init
     [(snd (fail_session (ex_tracker 100) ''s1'' ''CUDA out of memory'' 5),
       snd (fail_session (ex_tracker 100) ''s1'' ''CUDA out of memory'' 5))]
     = ([], Raised UnboundLocalError)"
proof -
  let ?s = "TrainingSession_fail (ex_session 100) ''CUDA out of memory'' 5"
  let ?tr = "snd (fail_session (ex_tracker 100) ''s1'' ''CUDA out of memory'' 5)"
  have g: "dict_get (sessions ?tr) ''s1'' = Some ?s"
    by (simp add: call_defs ex_defs)
  have st: "sd_status (session_to_dict ?s) = ''failed''"
    by (simp add: session_to_dict_def TrainingSession_fail_def Let_def)
  have ev: "events ?s = []"
    by (simp add: TrainingSession_fail_def ex_session_def)
  have p: "poll_iteration ''s1'' feed_init ?tr ?tr = ([], Raise UnboundLocalError)"
    by (simp add: poll_iteration_def get_status_def get_events_def g st ev feed_init_def Let_def)
  show ?thesis
    by (simp add: p get_status_def g st)
qed

end
